theory Spec2Isabelle
  imports Complex_Main
begin

section \<open>Python strings\<close>

text \<open>
  A Python \<open>str\<close> is modelled as a \<open>string\<close> (a list of \<open>char\<close>), each \<open>char\<close> read as
  a code point below 256, so \<open>length\<close> is Python's \<open>len\<close>. \<open>is_space\<close> is
  \<open>str.isspace\<close> on that range (tab to carriage return, the separators 0x1C to 0x1F,
  space, 0x85 and 0xA0); it is the set that \<open>str.strip()\<close> removes and that \<open>\s\<close>
  matches in a \<open>re\<close> pattern over \<open>str\<close>.
\<close>

definition is_space :: "char \<Rightarrow> bool" where
  "is_space c = (let n = (of_char c :: nat) in
     (9 \<le> n \<and> n \<le> 13) \<or> (28 \<le> n \<and> n \<le> 32) \<or> n = 133 \<or> n = 160)"

definition lstrip :: "string \<Rightarrow> string" where
  "lstrip s = dropWhile is_space s"

definition rstrip :: "string \<Rightarrow> string" where
  "rstrip s = rev (dropWhile is_space (rev s))"

text \<open>\<open>s.strip()\<close>\<close>

definition strip :: "string \<Rightarrow> string" where
  "strip s = lstrip (rstrip s)"

text \<open>\<open>s.startswith(p)\<close>\<close>

definition starts_with :: "string \<Rightarrow> string \<Rightarrow> bool" where
  "starts_with p s = (take (length p) s = p)"

text \<open>\<open>sub in s\<close>\<close>

fun contains :: "string \<Rightarrow> string \<Rightarrow> bool" where
  "contains sub [] = (sub = [])"
| "contains sub (c # cs) = (starts_with sub (c # cs) \<or> contains sub cs)"

text \<open>
  \<open>s.replace(old, new)\<close> for a non-empty \<open>old\<close>: every occurrence, left to right,
  without overlap.
\<close>

function replace :: "string \<Rightarrow> string \<Rightarrow> string \<Rightarrow> string" where
  "replace old new [] = []"
| "replace old new (c # cs) =
     (if old \<noteq> [] \<and> starts_with old (c # cs)
      then new @ replace old new (drop (length old - 1) cs)
      else c # replace old new cs)"
  by pat_completeness auto
termination
  by (relation "measure (\<lambda>(old, new, s). length s)") auto

text \<open>\<open>sep.join(xs)\<close>\<close>

fun join :: "string \<Rightarrow> string list \<Rightarrow> string" where
  "join sep [] = []"
| "join sep [x] = x"
| "join sep (x # y # ys) = x @ sep @ join sep (y # ys)"

text \<open>
  \<open>xs[a:b]\<close> for bounds that are not negative (the only slices the code takes): empty
  when \<open>b \<le> a\<close>, cut at the end of the list.
\<close>

definition slice :: "'a list \<Rightarrow> int \<Rightarrow> int \<Rightarrow> 'a list" where
  "slice xs a b = take (nat b - nat a) (drop (nat a) xs)"

section \<open>PDFProcessor: sentences\<close>

text \<open>
  The pattern \<open>```r\s*\n(.*?)\n```\<close> with \<open>re.DOTALL\<close>, matched at the head of a string.
  \<open>find_close\<close> is the lazy \<open>(.*?)\<close> in front of the closing \<open>\n```\<close>: the number of
  characters up to its first occurrence. \<open>\s*\<close> is greedy and gives characters back one
  at a time until a newline follows it and the rest matches: \<open>backtrack_ws r j\<close> tries
  \<open>\s*\<close> at \<open>j\<close> characters, then \<open>j - 1\<close>, down to none. A match is the text of group 1
  and the length of the whole match.
\<close>

fun find_close :: "string \<Rightarrow> nat option" where
  "find_close [] = None"
| "find_close (c # cs) =
     (if starts_with ''\<newline>```'' (c # cs) then Some 0 else map_option Suc (find_close cs))"

definition close_at :: "string \<Rightarrow> nat \<Rightarrow> (string \<times> nat) option" where
  "close_at r j =
     (if j < length r \<and> r ! j = CHR 0x0A
      then (case find_close (drop (Suc j) r) of
              None \<Rightarrow> None
            | Some t \<Rightarrow> Some (take t (drop (Suc j) r), 4 + j + 1 + t + 4))
      else None)"

fun backtrack_ws :: "string \<Rightarrow> nat \<Rightarrow> (string \<times> nat) option" where
  "backtrack_ws r 0 = close_at r 0"
| "backtrack_ws r (Suc j) =
     (case close_at r (Suc j) of Some m \<Rightarrow> Some m | None \<Rightarrow> backtrack_ws r j)"

definition match_code_pattern :: "string \<Rightarrow> (string \<times> nat) option" where
  "match_code_pattern s =
     (if starts_with ''```r'' s
      then backtrack_ws (drop 4 s) (length (takeWhile is_space (drop 4 s)))
      else None)"

text \<open>
  \<open>re.findall(code_pattern, text, re.DOTALL)\<close>: the pattern has one group, so the result
  holds the text of group 1 of every match (the code between the fences, without them),
  leftmost first, the search going on after each match.
\<close>

function findall_code :: "string \<Rightarrow> string list" where
  "findall_code [] = []"
| "findall_code (c # cs) =
     (case match_code_pattern (c # cs) of
        Some (g, n) \<Rightarrow> g # findall_code (drop (n - 1) cs)
      | None \<Rightarrow> findall_code cs)"
  by pat_completeness auto
termination
  by (relation "measure length") auto

text \<open>\<open>re.sub(code_pattern, 'CODE_BLOCK_PLACEHOLDER', text, flags=re.DOTALL)\<close>\<close>

function sub_code :: "string \<Rightarrow> string" where
  "sub_code [] = []"
| "sub_code (c # cs) =
     (case match_code_pattern (c # cs) of
        Some (g, n) \<Rightarrow> ''CODE_BLOCK_PLACEHOLDER'' @ sub_code (drop (n - 1) cs)
      | None \<Rightarrow> c # sub_code cs)"
  by pat_completeness auto
termination
  by (relation "measure length") auto

text \<open>
  \<open>re.split(r'(?<=[.!?])\s+', text)\<close>: a separator is a maximal run of white space
  whose first character follows \<open>.\<close>, \<open>!\<close> or \<open>?\<close>. \<open>acc\<close> is the piece read so far,
  reversed, so its head is the character before the one looked at.
\<close>

definition is_terminator :: "char \<Rightarrow> bool" where
  "is_terminator c = (c = CHR ''.'' \<or> c = CHR ''!'' \<or> c = CHR ''?'')"

function re_split :: "string \<Rightarrow> string \<Rightarrow> string list" where
  "re_split acc [] = [rev acc]"
| "re_split acc (c # cs) =
     (if is_space c \<and> (case acc of [] \<Rightarrow> False | p # _ \<Rightarrow> is_terminator p)
      then rev acc # re_split [] (dropWhile is_space cs)
      else re_split (c # acc) cs)"
  by pat_completeness auto
termination
  by (relation "measure (\<lambda>(acc, s). length s)")
     (auto intro: le_imp_less_Suc length_dropWhile_le)

text \<open>
  The loop that puts the code back: a sentence that contains the placeholder gets every
  occurrence of it replaced by the next code block, while there is one.
\<close>

fun restore_code :: "string list \<Rightarrow> nat \<Rightarrow> string list \<Rightarrow> string list" where
  "restore_code code_blocks code_index [] = []"
| "restore_code code_blocks code_index (sentence # rest) =
     (if contains ''CODE_BLOCK_PLACEHOLDER'' sentence \<and> code_index < length code_blocks
      then replace ''CODE_BLOCK_PLACEHOLDER'' (code_blocks ! code_index) sentence
             # restore_code code_blocks (Suc code_index) rest
      else sentence # restore_code code_blocks code_index rest)"

definition split_into_sentences :: "string \<Rightarrow> string list" where
  "split_into_sentences text =
     (let code_blocks = findall_code text;
          text_with_placeholders = sub_code text;
          sentences = re_split [] text_with_placeholders;
          sentences = restore_code code_blocks 0 sentences
      in map strip (filter (\<lambda>s. strip s \<noteq> []) sentences))"

section \<open>PDFProcessor: chunks\<close>

text \<open>
  A value of a metadata dictionary is a string or an integer; a dictionary is a list of
  key and value pairs in insertion order, read with \<open>dict.get(key, default)\<close>.
\<close>

datatype py_value = PyStr string | PyInt int

type_synonym py_dict = "(string \<times> py_value) list"

definition get :: "py_dict \<Rightarrow> string \<Rightarrow> py_value \<Rightarrow> py_value" where
  "get d key dflt = (case map_of d key of None \<Rightarrow> dflt | Some v \<Rightarrow> v)"

record page_data =
  pd_text :: string
  pd_page :: int
  pd_filename :: "string option"

record chunk =
  c_text :: string
  c_page :: int
  start_sentence :: int
  end_sentence :: int
  c_metadata :: py_dict

definition make_chunk :: "page_data \<Rightarrow> string \<Rightarrow> int \<Rightarrow> int \<Rightarrow> chunk" where
  "make_chunk pd current_chunk chunk_start_sentence e =
     \<lparr> c_text = strip current_chunk,
       c_page = pd_page pd,
       start_sentence = chunk_start_sentence,
       end_sentence = e,
       c_metadata =
         [(''source'', PyStr (case pd_filename pd of None \<Rightarrow> [] | Some f \<Rightarrow> f)),
          (''page'', PyInt (pd_page pd))] \<rparr>"

text \<open>
  The loop over \<open>enumerate(sentences)\<close>. Its state is \<open>current_chunk\<close>,
  \<open>chunk_start_sentence\<close> and the list \<open>chunks\<close>, which all pages share.
\<close>

fun chunk_loop ::
  "int \<Rightarrow> int \<Rightarrow> page_data \<Rightarrow> string list \<Rightarrow> (nat \<times> string) list
     \<Rightarrow> string \<times> int \<times> chunk list \<Rightarrow> string \<times> int \<times> chunk list" where
  "chunk_loop chunk_size chunk_overlap pd sentences [] st = st"
| "chunk_loop chunk_size chunk_overlap pd sentences ((i, sentence) # rest)
     (current_chunk, chunk_start_sentence, chunks) =
     (if int (length (current_chunk @ sentence)) > chunk_size \<and> current_chunk \<noteq> []
      then
        chunk_loop chunk_size chunk_overlap pd sentences rest
          (join '' '' (slice sentences (max 0 (int i - chunk_overlap div 50)) (int i))
             @ sentence @ '' '',
           max 0 (int i - chunk_overlap div 50),
           chunks @ [make_chunk pd current_chunk chunk_start_sentence (int i - 1)])
      else
        chunk_loop chunk_size chunk_overlap pd sentences rest
          (current_chunk @ sentence @ '' '', chunk_start_sentence, chunks))"

definition chunk_page :: "int \<Rightarrow> int \<Rightarrow> chunk list \<Rightarrow> page_data \<Rightarrow> chunk list" where
  "chunk_page chunk_size chunk_overlap chunks pd =
     (let sentences = split_into_sentences (pd_text pd) in
      case chunk_loop chunk_size chunk_overlap pd sentences (enumerate 0 sentences) ([], 0, chunks)
      of (current_chunk, chunk_start_sentence, chunks') \<Rightarrow>
        if strip current_chunk \<noteq> []
        then chunks' @ [make_chunk pd current_chunk chunk_start_sentence
                          (int (length sentences) - 1)]
        else chunks')"

definition chunk_text :: "int \<Rightarrow> int \<Rightarrow> page_data list \<Rightarrow> chunk list" where
  "chunk_text chunk_size chunk_overlap text_content =
     foldl (chunk_page chunk_size chunk_overlap) [] text_content"

section \<open>VectorStore: the store and its collaborators\<close>

text \<open>
  The sentence encoder, FAISS, NumPy and the file system are not code of the
  repository; the model takes what they do as an environment. \<open>'v\<close> is the type of an
  embedding and \<open>'s\<close> the type of a score, a linear order (finite floats compare as the
  rationals they are). A flat index is its dimension \<open>d\<close> and the list of the vectors added
  to it, so \<open>index.ntotal\<close> is the length of that list.
\<close>

datatype exn = IndexError | External string

record 'v faiss_index =
  index_dim :: int
  vectors :: "'v list"

text \<open>
  A file at \<open>index_path\<close>: it is not there, or asking whether it is there raises (the
  path cannot be examined), or it is there and reading it raises, or it is there and
  holds a value.
\<close>

datatype 'a disk_file = Missing | Inaccessible exn | Unreadable | Readable 'a

text \<open>
  What a write to a file does: it succeeds, or it raises before the file is touched, or
  it raises and leaves a file that cannot be read back.
\<close>

datatype write_outcome = Write_Ok | Write_Raises_Untouched | Write_Raises_Partial

datatype log_event =
    Model_Loaded | Model_Failed exn
  | Loaded_Index nat | Load_Failed
  | Saved_Index nat | Save_Failed
  | No_Documents | No_Valid_Texts | Encoding nat | Added nat
  | Cleared

text \<open>
  The environment of a store.
  \<^item> \<open>make_directory\<close>: what \<open>index_path.mkdir(parents=True, exist_ok=True)\<close> raises, if
    anything (\<open>FileExistsError\<close> when the path is a regular file).
  \<^item> \<open>load_model\<close>: what \<open>SentenceTransformer(model_name)\<close> raises, if anything.
  \<^item> \<open>model_dimension\<close>: the dimension of the model's embeddings, which
    \<open>get_sentence_embedding_dimension\<close> reports and every array of \<open>encode\<close> has.
  \<^item> \<open>new_index\<close>: what \<open>faiss.IndexFlatIP(dimension)\<close> raises at construction, if
    anything; where it has succeeded, the later calls with the same dimension succeed.
  \<^item> \<open>encode\<close>: the embeddings of a list of texts, or an exception.
  \<^item> \<open>backend_search\<close>: \<open>index.search(queries, k)\<close>, the arrays of scores and of
    positions, one row for each query, or an exception.
  \<^item> \<open>threshold_cast\<close>: the value NumPy compares a single-precision score with in
    \<open>score >= threshold\<close>, for a threshold that is a Python float: the threshold itself
    where NumPy compares in double precision (NumPy 1), the threshold rounded to single
    precision where the Python float takes the type of the score (NumPy 2).
  \<^item> \<open>index_write\<close>, \<open>metadata_write\<close>: what the two writes of \<open>_save_index\<close> do.
\<close>

record ('v, 's) env =
  make_directory :: "exn option"
  load_model :: "exn option"
  model_dimension :: int
  new_index :: "exn option"
  encode :: "string list \<Rightarrow> exn + 'v list"
  backend_search ::
    "'v faiss_index \<Rightarrow> 'v list \<Rightarrow> int \<Rightarrow> exn + ('s list list \<times> int list list)"
  threshold_cast :: "'s \<Rightarrow> 's"
  index_write :: write_outcome
  metadata_write :: write_outcome

record 'v vector_store =
  model_name :: string
  dimension :: int
  index :: "'v faiss_index"
  metadata :: "py_dict list"
  index_file :: "'v faiss_index disk_file"
  metadata_file :: "py_dict list disk_file"
  logged :: "log_event list"

definition log_to :: "log_event \<Rightarrow> 'v vector_store \<Rightarrow> 'v vector_store" where
  "log_to e st = st\<lparr>logged := logged st @ [e]\<rparr>"

text \<open>\<open>path.exists()\<close>\<close>

definition file_exists :: "'a disk_file \<Rightarrow> exn + bool" where
  "file_exists f =
     (case f of
        Missing \<Rightarrow> Inr False
      | Inaccessible e \<Rightarrow> Inl e
      | Unreadable \<Rightarrow> Inr True
      | Readable x \<Rightarrow> Inr True)"

text \<open>
  The \<open>try\<close> block of \<open>_load_existing_index\<close> with its handler: the index is read, then the
  metadata; an exception of either read is caught and logged, and the store is reset to
  an empty index of the store's dimension and no metadata. An index that is read is
  kept as it is, whatever its dimension and its number of vectors.
\<close>

definition read_files :: "'v vector_store \<Rightarrow> 'v vector_store" where
  "read_files st =
     (case index_file st of
        Readable idx \<Rightarrow>
          (case metadata_file st of
             Readable md \<Rightarrow>
               log_to (Loaded_Index (length md)) (st\<lparr>index := idx, metadata := md\<rparr>)
           | _ \<Rightarrow>
               log_to Load_Failed
                 (st\<lparr>index := \<lparr>index_dim = dimension st, vectors = []\<rparr>, metadata := []\<rparr>))
      | _ \<Rightarrow>
          log_to Load_Failed
            (st\<lparr>index := \<lparr>index_dim = dimension st, vectors = []\<rparr>, metadata := []\<rparr>))"

text \<open>
  \<open>_load_existing_index\<close>: \<open>if index_file.exists() and metadata_file.exists()\<close>, outside
  the \<open>try\<close>; the metadata file is asked for only when the index file exists.
\<close>

definition load_existing_index :: "'v vector_store \<Rightarrow> exn + 'v vector_store" where
  "load_existing_index st =
     (case file_exists (index_file st) of
        Inl e \<Rightarrow> Inl e
      | Inr False \<Rightarrow> Inr st
      | Inr True \<Rightarrow>
          (case file_exists (metadata_file st) of
             Inl e \<Rightarrow> Inl e
           | Inr False \<Rightarrow> Inr st
           | Inr True \<Rightarrow> Inr (read_files st)))"

text \<open>
  \<open>__init__\<close>, in the order of the code: the directory is made; the model is loaded (its
  exception is logged and raised again); the empty index of the model's dimension is
  created; the files found at \<open>index_path\<close> are loaded.
\<close>

definition init ::
  "('v, 's) env \<Rightarrow> string \<Rightarrow> 'v faiss_index disk_file \<Rightarrow> py_dict list disk_file
     \<Rightarrow> exn + 'v vector_store" where
  "init env name disk_index disk_metadata =
     (case make_directory env of
        Some e \<Rightarrow> Inl e
      | None \<Rightarrow>
          (case load_model env of
             Some e \<Rightarrow> Inl e
           | None \<Rightarrow>
               (case new_index env of
                  Some e \<Rightarrow> Inl e
                | None \<Rightarrow>
                    load_existing_index
                      \<lparr> model_name = name, dimension = model_dimension env,
                        index = \<lparr>index_dim = model_dimension env, vectors = []\<rparr>,
                        metadata = [],
                        index_file = disk_index, metadata_file = disk_metadata,
                        logged = [Model_Loaded] \<rparr>)))"

definition write_file :: "write_outcome \<Rightarrow> 'a \<Rightarrow> 'a disk_file \<Rightarrow> 'a disk_file \<times> bool" where
  "write_file w x f =
     (case w of
        Write_Ok \<Rightarrow> (Readable x, False)
      | Write_Raises_Untouched \<Rightarrow> (f, True)
      | Write_Raises_Partial \<Rightarrow> (Unreadable, True))"

text \<open>
  \<open>_save_index\<close>: the index file is written, then the metadata file; an exception of
  either write is caught and logged, and the method returns normally.
\<close>

definition save_index :: "('v, 's) env \<Rightarrow> 'v vector_store \<Rightarrow> 'v vector_store" where
  "save_index env st =
     (case write_file (index_write env) (index st) (index_file st) of
        (f1, raised1) \<Rightarrow>
          if raised1 then log_to Save_Failed (st\<lparr>index_file := f1\<rparr>)
          else (case write_file (metadata_write env) (metadata st) (metadata_file st) of
                  (f2, raised2) \<Rightarrow>
                    if raised2
                    then log_to Save_Failed (st\<lparr>index_file := f1, metadata_file := f2\<rparr>)
                    else log_to (Saved_Index (length (metadata st)))
                           (st\<lparr>index_file := f1, metadata_file := f2\<rparr>)))"

record document =
  doc_text :: "string option"
  doc_metadata :: "py_dict option"

text \<open>The loop of \<open>add_documents\<close> that keeps the documents whose text is not blank.\<close>

fun extract_texts :: "document list \<Rightarrow> string list \<times> py_dict list" where
  "extract_texts [] = ([], [])"
| "extract_texts (doc # docs) =
     (let text = (case doc_text doc of None \<Rightarrow> [] | Some t \<Rightarrow> t);
          (texts, new_metadata) = extract_texts docs
      in if strip text \<noteq> []
         then (text # texts, (case doc_metadata doc of None \<Rightarrow> [] | Some m \<Rightarrow> m) # new_metadata)
         else (texts, new_metadata))"

text \<open>
  \<open>index.add(embeddings)\<close>: FAISS asserts that the embeddings have the dimension of the
  index, and appends them. The embeddings are the encoder's, of the model's dimension;
  the index is the one made at construction or by a clear, of that dimension, or one
  that was loaded, of whatever dimension it was saved with.
\<close>

definition index_add :: "int \<Rightarrow> 'v list \<Rightarrow> 'v faiss_index \<Rightarrow> exn + 'v faiss_index" where
  "index_add embedding_dim embeddings idx =
     (if embedding_dim = index_dim idx
      then Inr (idx\<lparr>vectors := vectors idx @ embeddings\<rparr>)
      else Inl (External ''AssertionError''))"

text \<open>
  \<open>add_documents\<close>. An exception leaves the store as it was when raised, so the error
  result carries the store too.
\<close>

definition add_documents ::
  "('v, 's) env \<Rightarrow> 'v vector_store \<Rightarrow> document list
     \<Rightarrow> (exn \<times> 'v vector_store) + 'v vector_store" where
  "add_documents env st documents =
     (if documents = [] then Inr (log_to No_Documents st)
      else case extract_texts documents of
        (texts, new_metadata) \<Rightarrow>
          if texts = [] then Inr (log_to No_Valid_Texts st)
          else
            (let st1 = log_to (Encoding (length texts)) st in
             (case encode env texts of
                Inl e \<Rightarrow> Inl (e, st1)
              | Inr embeddings \<Rightarrow>
                  (case index_add (model_dimension env) embeddings (index st1) of
                     Inl e \<Rightarrow> Inl (e, st1)
                   | Inr idx \<Rightarrow>
                       (let st2 = st1\<lparr>index := idx\<rparr>;
                            st3 = st2\<lparr>metadata := metadata st2 @ new_metadata\<rparr>;
                            st4 = save_index env st3
                        in Inr (log_to (Added (length texts)) st4))))))"

definition clear_index :: "('v, 's) env \<Rightarrow> 'v vector_store \<Rightarrow> 'v vector_store" where
  "clear_index env st =
     log_to Cleared
       (save_index env
          (st\<lparr>index := \<lparr>index_dim = dimension st, vectors = []\<rparr>, metadata := []\<rparr>))"

record index_stats =
  total_documents :: nat
  index_size :: nat
  stats_dimension :: int
  stats_model_name :: string

definition get_index_stats :: "'v vector_store \<Rightarrow> index_stats" where
  "get_index_stats st =
     \<lparr> total_documents = length (metadata st),
       index_size = length (vectors (index st)),
       stats_dimension = dimension st,
       stats_model_name = model_name st \<rparr>"

section \<open>VectorStore: search\<close>

text \<open>
  \<open>xs[i]\<close> on a Python list: a negative index counts from the end, and an index outside
  the list raises \<open>IndexError\<close>.
\<close>

definition py_index :: "'a list \<Rightarrow> int \<Rightarrow> exn + 'a" where
  "py_index xs i =
     (if 0 \<le> i \<and> i < int (length xs) then Inr (xs ! nat i)
      else if i < 0 \<and> - int (length xs) \<le> i then Inr (xs ! nat (int (length xs) + i))
      else Inl IndexError)"

record 's search_result =
  score :: 's
  r_metadata :: py_dict
  r_index :: int

text \<open>
  The loop over \<open>zip(scores[0], indices[0])\<close>: a hit is kept when its position is below the
  number of metadata entries and \<open>score >= threshold\<close> holds. The score is a
  single-precision NumPy scalar and the threshold a Python float, so NumPy decides
  what the score is compared with: \<open>cast threshold\<close>. The result holds \<open>float(score)\<close>,
  the same number in double precision.
\<close>

fun collect_results ::
  "py_dict list \<Rightarrow> ('s::linorder \<Rightarrow> 's) \<Rightarrow> 's \<Rightarrow> ('s \<times> int) list \<Rightarrow> exn + 's search_result list" where
  "collect_results md cast threshold [] = Inr []"
| "collect_results md cast threshold ((sc, idx) # rest) =
     (if idx < int (length md) \<and> sc \<ge> cast threshold
      then (case py_index md idx of
              Inl e \<Rightarrow> Inl e
            | Inr m \<Rightarrow>
                (case collect_results md cast threshold rest of
                   Inl e \<Rightarrow> Inl e
                 | Inr results \<Rightarrow>
                     Inr (\<lparr> score = sc, r_metadata = m, r_index = idx \<rparr> # results)))
      else collect_results md cast threshold rest)"

text \<open>
  \<open>results.sort(key=..., reverse=True)\<close>: Python's sort is stable, also with
  \<open>reverse=True\<close>, so the result is the one stable descending order of the list; insertion
  from the right computes it.
\<close>

fun insort_desc :: "('a \<Rightarrow> 's::linorder) \<Rightarrow> 'a \<Rightarrow> 'a list \<Rightarrow> 'a list" where
  "insort_desc f x [] = [x]"
| "insort_desc f x (y # ys) = (if f x \<ge> f y then x # y # ys else y # insort_desc f x ys)"

definition sort_desc :: "('a \<Rightarrow> 's::linorder) \<Rightarrow> 'a list \<Rightarrow> 'a list" where
  "sort_desc f xs = foldr (insort_desc f) xs []"

definition similarity_search ::
  "('v, 's::linorder) env \<Rightarrow> 'v vector_store \<Rightarrow> string \<Rightarrow> int \<Rightarrow> 's
     \<Rightarrow> exn + 's search_result list" where
  "similarity_search env st query k threshold =
     (if strip query = [] then Inr []
      else case encode env [query] of
        Inl e \<Rightarrow> Inl e
      | Inr query_embedding \<Rightarrow>
          (case backend_search env (index st) query_embedding k of
             Inl e \<Rightarrow> Inl e
           | Inr (scores, indices) \<Rightarrow>
               (case py_index scores 0 of
                  Inl e \<Rightarrow> Inl e
                | Inr scores0 \<Rightarrow>
                    (case py_index indices 0 of
                       Inl e \<Rightarrow> Inl e
                     | Inr indices0 \<Rightarrow>
                         (case collect_results (metadata st) (threshold_cast env) threshold
                                 (zip scores0 indices0) of
                            Inl e \<Rightarrow> Inl e
                          | Inr results \<Rightarrow> Inr (sort_desc score results))))))"

section \<open>VectorStore: context and references\<close>

definition digit_char :: "nat \<Rightarrow> char" where
  "digit_char d = char_of (48 + d)"

function str_nat :: "nat \<Rightarrow> string" where
  "str_nat n = (if n < 10 then [digit_char n] else str_nat (n div 10) @ [digit_char (n mod 10)])"
  by pat_completeness auto
termination
  by (relation "measure id") auto

declare str_nat.simps [simp del]

definition str_int :: "int \<Rightarrow> string" where
  "str_int i = (if i < 0 then CHR ''-'' # str_nat (nat (- i)) else str_nat (nat i))"

text \<open>\<open>str(v)\<close>, the truth value of \<open>v\<close>, and \<open>a or b\<close>\<close>

definition str_of :: "py_value \<Rightarrow> string" where
  "str_of v = (case v of PyStr s \<Rightarrow> s | PyInt i \<Rightarrow> str_int i)"

definition truthy :: "py_value \<Rightarrow> bool" where
  "truthy v = (case v of PyStr s \<Rightarrow> s \<noteq> [] | PyInt i \<Rightarrow> i \<noteq> 0)"

definition py_or :: "py_value \<Rightarrow> py_value \<Rightarrow> py_value" where
  "py_or a b = (if truthy a then a else b)"

record 's reference =
  ref_module :: py_value
  ref_page :: string
  ref_score :: 's
  ref_source :: py_value

definition make_reference :: "'s search_result \<Rightarrow> 's reference" where
  "make_reference result =
     (let md = r_metadata result;
          source = get md ''source'' (PyStr ''Unknown Source'');
          page = get md ''page'' (PyStr []);
          title = get md ''title'' (PyStr [])
      in \<lparr> ref_module = py_or title source,
           ref_page = (if truthy page then str_of page else []),
           ref_score = score result,
           ref_source = source \<rparr>)"

definition context_line :: "('s \<Rightarrow> string) \<Rightarrow> nat \<Rightarrow> 's search_result \<Rightarrow> string" where
  "context_line fmt i result =
     (let md = r_metadata result;
          page = get md ''page'' (PyStr []);
          title = get md ''title'' (PyStr [])
      in ''[Reference '' @ str_nat (i + 1) @ ''] '' @ str_of title @ '' - Page '' @ str_of page
           @ '' (Relevance: '' @ fmt (score result) @ '')'')"

text \<open>
  \<open>search_with_context\<close>. Floats are not modelled, so the formatting \<open>{score:.3f}\<close> of a
  score is the parameter \<open>format_3f\<close>.
\<close>

definition search_with_context ::
  "('s \<Rightarrow> string) \<Rightarrow> ('v, 's::linorder) env \<Rightarrow> 'v vector_store \<Rightarrow> string \<Rightarrow> int \<Rightarrow> 's
     \<Rightarrow> exn + (string \<times> 's reference list)" where
  "search_with_context format_3f env st query k threshold =
     (case similarity_search env st query k threshold of
        Inl e \<Rightarrow> Inl e
      | Inr results \<Rightarrow>
          if results = [] then Inr ([], [])
          else Inr (join ''\<newline>'' (map (\<lambda>(i, r). context_line format_3f i r)
                                       (enumerate 0 results)),
                    map make_reference results))"

section \<open>Predicates of the statements\<close>




text \<open>The invariant that \<open>get_index_stats\<close> reports: as many metadata entries as vectors.\<close>

definition counts_agree :: "'v vector_store \<Rightarrow> bool" where
  "counts_agree st =
     (total_documents (get_index_stats st) = index_size (get_index_stats st))"

subsection \<open>Values for the examples\<close>

text \<open>
  An environment for the examples. Every step of the construction succeeds; a text is
  embedded as its length (any embedding will do); a search answers every query with the
  given row of scores and row of positions, and rejects an index of another dimension
  than the query's and \<open>k \<le> 0\<close>, as FAISS does (\<open>assert d == self.d\<close>, \<open>assert k > 0\<close>);
  a score is compared with the threshold itself; both files can be written.
\<close>

definition example_env :: "real list \<Rightarrow> int list \<Rightarrow> (nat, real) env" where
  "example_env scores0 indices0 =
     \<lparr> make_directory = None, load_model = None, model_dimension = 384, new_index = None,
       encode = (\<lambda>texts. Inr (map length texts)),
       backend_search = (\<lambda>idx queries k.
          if index_dim idx = 384 \<and> 0 < k
          then Inr (map (\<lambda>q. scores0) queries, map (\<lambda>q. indices0) queries)
          else Inl (External ''AssertionError'')),
       threshold_cast = (\<lambda>threshold. threshold),
       index_write = Write_Ok, metadata_write = Write_Ok \<rparr>"

text \<open>
  The single-precision float nearest to a threshold \<open>t\<close> with \<open>1/2 \<le> t < 1\<close>, where
  single-precision floats are \<open>1 / 2 ^ 24\<close> apart, a tie going to the even neighbour: what
  NumPy 2 compares a score with at such a threshold. The examples use it at 0.9 only,
  and a threshold outside that range is left as it is.
\<close>

definition round_to_single :: "real \<Rightarrow> real" where
  "round_to_single t =
     (if 1/2 \<le> t \<and> t < 1
      then (let q = t * 2 ^ 24; f = \<lfloor>q\<rfloor>;
                n = (if q - of_int f < 1/2 then f
                     else if 1/2 < q - of_int f then f + 1
                     else if even f then f else f + 1)
            in of_int n / 2 ^ 24)
      else t)"

text \<open>A store that holds two documents, and the page of the chunking scenario.\<close>

definition two_docs :: "nat vector_store" where
  "two_docs =
     \<lparr> model_name = ''all-MiniLM-L6-v2'', dimension = 384,
       index = \<lparr>index_dim = 384, vectors = [21, 24]\<rparr>,
       metadata = [[(''source'', PyStr ''intro.pdf''), (''page'', PyInt 3)],
                   [(''source'', PyStr ''lists.pdf''), (''page'', PyInt 7),
                    (''title'', PyStr ''Lists'')]],
       index_file = Missing, metadata_file = Missing, logged = [] \<rparr>"

definition vectors_page :: page_data where
  "vectors_page =
     \<lparr> pd_text = ''Vectors store values. Use c() to combine them. Lists hold mixed types.'',
       pd_page = 1, pd_filename = None \<rparr>"

section \<open>The chunker\<close>

subsection \<open>The size of a chunk\<close>














subsection \<open>The scenario of the specification\<close>

text \<open>
  C7 (as amended). With chunk size 50 and overlap 10 the page
  \<open>Vectors store values. Use c() to combine them. Lists hold mixed types.\<close> yields
  exactly two chunks; the overlap window is \<open>10 // 50 = 0\<close> sentences, so the second chunk
  starts at sentence 2 and is the third sentence alone.
\<close>

theorem scenario_two_chunks:
  "chunk_text 50 10 [vectors_page] =
     [\<lparr> c_text = ''Vectors store values. Use c() to combine them.'', c_page = 1,
         start_sentence = 0, end_sentence = 1,
         c_metadata = [(''source'', PyStr []), (''page'', PyInt 1)] \<rparr>,
      \<lparr> c_text = ''Lists hold mixed types.'', c_page = 1,
         start_sentence = 2, end_sentence = 2,
         c_metadata = [(''source'', PyStr []), (''page'', PyInt 1)] \<rparr>]"
  by code_simp

text \<open>
  C7 as stated fails: the last sentence of the first chunk is
  \<open>Use c() to combine them.\<close>, and the second chunk does not begin with it.
\<close>

theorem scenario_overlap_counterexample:
  "split_into_sentences (pd_text vectors_page) =
     [''Vectors store values.'', ''Use c() to combine them.'', ''Lists hold mixed types.'']
   \<and> map c_text (chunk_text 50 10 [vectors_page]) =
     [''Vectors store values. Use c() to combine them.'', ''Lists hold mixed types.'']
   \<and> \<not> starts_with ''Use c() to combine them.'' (c_text (chunk_text 50 10 [vectors_page] ! 1))"
  by code_simp

subsection \<open>Fenced code\<close>

text \<open>
  C6, on the input of the repository's test \<open>test_split_into_sentences\<close>: the sentences
  hold the code between the fences but not the fences, so the fenced block is in no
  sentence and in no chunk.
\<close>

theorem fence_dropped:
  "split_into_sentences ''This is a sentence. ```r\<newline>x <- 1\<newline>``` This is another sentence.''
     = [''This is a sentence.'', ''x <- 1 This is another sentence.'']
   \<and> map c_text (chunk_text 1000 200
         [\<lparr> pd_text = ''This is a sentence. ```r\<newline>x <- 1\<newline>``` This is another sentence.'',
            pd_page = 1, pd_filename = None \<rparr>])
     = [''This is a sentence. x <- 1 This is another sentence.'']
   \<and> \<not> contains ''```r\<newline>x <- 1\<newline>```''
         ''This is a sentence. x <- 1 This is another sentence.''"
  by code_simp

section \<open>The vector store: search\<close>

subsection \<open>The stable descending sort and the filter\<close>

lemma filter_insort_desc:
  "filter (\<lambda>y. f y = v) (insort_desc f x xs) =
     (if f x = v then x # filter (\<lambda>y. f y = v) xs else filter (\<lambda>y. f y = v) xs)"
  by (induction xs) auto

lemma sort_desc_stable: "filter (\<lambda>y. f y = v) (sort_desc f xs) = filter (\<lambda>y. f y = v) xs"
  by (induction xs) (simp_all add: sort_desc_def filter_insort_desc)

lemma set_insort_desc: "set (insort_desc f x xs) = insert x (set xs)"
  by (induction xs) auto

lemma length_insort_desc: "length (insort_desc f x xs) = Suc (length xs)"
  by (induction xs) auto

lemma sorted_insort_desc:
  "sorted_wrt (\<lambda>a b. f a \<ge> f b) xs \<Longrightarrow> sorted_wrt (\<lambda>a b. f a \<ge> f b) (insort_desc f x xs)"
  by (induction xs) (auto simp: set_insort_desc)

lemma set_sort_desc: "set (sort_desc f xs) = set xs"
  by (induction xs) (simp_all add: sort_desc_def set_insort_desc)

lemma length_sort_desc: "length (sort_desc f xs) = length xs"
  by (induction xs) (simp_all add: sort_desc_def length_insort_desc)

lemma sorted_sort_desc: "sorted_wrt (\<lambda>a b. f a \<ge> f b) (sort_desc f xs)"
  by (induction xs) (simp_all add: sort_desc_def sorted_insort_desc)

lemma collect_results_pairs:
  "collect_results md cast th raw = Inr rs \<Longrightarrow>
     map (\<lambda>r. (score r, r_index r)) rs
       = filter (\<lambda>(s, i). i < int (length md) \<and> cast th \<le> s) raw"
  by (induction raw arbitrary: rs) (auto split: if_splits sum.splits)

lemma py_index_0: "py_index xs 0 = Inr y \<Longrightarrow> xs \<noteq> [] \<and> y = xs ! 0"
  by (auto simp: py_index_def split: if_splits)

lemma similarity_search_unfold:
  assumes res: "similarity_search env st query k threshold = Inr results"
    and ne: "strip query \<noteq> []"
    and enc: "encode env [query] = Inr query_embedding"
    and bs: "backend_search env (index st) query_embedding k = Inr (scores, indices)"
  shows "\<exists>kept. scores \<noteq> [] \<and> indices \<noteq> []
           \<and> collect_results (metadata st) (threshold_cast env) threshold
                 (zip (scores ! 0) (indices ! 0)) = Inr kept
           \<and> results = sort_desc score kept"
  using res ne enc bs
  by (auto simp: similarity_search_def split: sum.splits dest!: py_index_0)

text \<open>
  The search returns a result whenever the encoder and the backend answer, the backend
  gives at least one row, and no position of the row lies below \<open>-len(metadata)\<close>.
\<close>

lemma py_index_in_range:
  "- int (length xs) \<le> i \<Longrightarrow> i < int (length xs) \<Longrightarrow> \<exists>x. py_index xs i = Inr x"
  by (simp add: py_index_def)

lemma collect_results_returns:
  "\<forall>i \<in> snd ` set raw. - int (length md) \<le> i \<Longrightarrow>
     \<exists>rs. collect_results md cast th raw = Inr rs"
proof (induction raw)
  case Nil
  show ?case by simp
next
  case (Cons p raw)
  obtain s i where p: "p = (s, i)" by (cases p)
  from Cons obtain rs where rs: "collect_results md cast th raw = Inr rs" by auto
  show ?case
  proof (cases "i < int (length md) \<and> cast th \<le> s")
    case True
    with Cons.prems p obtain m where "py_index md i = Inr m"
      using py_index_in_range[of md i] by auto
    with True p rs show ?thesis by simp
  next
    case False
    with p rs show ?thesis by auto
  qed
qed

lemma similarity_search_returns:
  assumes enc: "encode env [query] = Inr query_embedding"
    and bs: "backend_search env (index st) query_embedding k = Inr (scores, indices)"
    and rows: "scores \<noteq> []" "indices \<noteq> []"
    and pos: "\<forall>i \<in> set (indices ! 0). - int (length (metadata st)) \<le> i"
  shows "\<exists>results. similarity_search env st query k threshold = Inr results"
proof -
  have s0: "py_index scores 0 = Inr (scores ! 0)" and i0: "py_index indices 0 = Inr (indices ! 0)"
    using rows by (simp_all add: py_index_def)
  have "\<forall>i \<in> snd ` set (zip (scores ! 0) (indices ! 0)). - int (length (metadata st)) \<le> i"
    using pos by (auto dest: set_zip_rightD)
  from collect_results_returns[OF this]
  obtain rs where "collect_results (metadata st) (threshold_cast env) threshold
                    (zip (scores ! 0) (indices ! 0)) = Inr rs"
    by blast
  then show ?thesis
    by (simp add: similarity_search_def enc bs s0 i0)
qed


subsection \<open>Ranking\<close>

text \<open>
  C1 (as amended). When \<open>similarity_search\<close> returns and the backend has answered with
  rows of \<open>k\<close> columns, it returns at most \<open>k\<close> results, and the results are sorted by
  score, highest first. Every result has a score of at least the value that NumPy
  compares the scores with, \<open>threshold_cast env threshold\<close>: the threshold itself where
  the comparison is made in double precision, so that there every score is at least
  the threshold; the threshold rounded to single precision under NumPy 2, where a
  returned score can lie below the threshold by the rounding. Results of equal score
  keep the order in which the backend listed them: for every score \<open>v\<close> the positions of
  the results of score \<open>v\<close> are, in order, the positions of the kept hits of score \<open>v\<close>
  in the backend's row. The code compares no positions.
\<close>

theorem similarity_search_ranked:
  assumes res: "similarity_search env st query k threshold = Inr results"
    and enc: "encode env [query] = Inr query_embedding"
    and bs: "backend_search env (index st) query_embedding k = Inr (scores, indices)"
    and shape: "\<forall>row \<in> set scores. length row = nat k"
  shows "length results \<le> nat k
       \<and> (\<forall>r \<in> set results. threshold_cast env threshold \<le> score r)
       \<and> (threshold_cast env threshold = threshold \<longrightarrow>
            (\<forall>r \<in> set results. threshold \<le> score r))
       \<and> sorted_wrt (\<lambda>a b. score a \<ge> score b) results
       \<and> (strip query \<noteq> [] \<longrightarrow>
            (\<forall>v. map r_index (filter (\<lambda>r. score r = v) results) =
                 map snd (filter (\<lambda>(s, i). s = v \<and> i < int (length (metadata st))
                                           \<and> threshold_cast env threshold \<le> s)
                            (zip (scores ! 0) (indices ! 0)))))"
proof (cases "strip query = []")
  case True
  with res have "results = []" by (simp add: similarity_search_def)
  with True show ?thesis by simp
next
  case False
  let ?raw = "zip (scores ! 0) (indices ! 0)"
  let ?t = "threshold_cast env threshold"
  let ?keep = "\<lambda>(s, i). i < int (length (metadata st)) \<and> ?t \<le> s"
  from similarity_search_unfold[OF res False enc bs]
  obtain kept where ne: "scores \<noteq> []"
    and kept: "collect_results (metadata st) (threshold_cast env) threshold ?raw = Inr kept"
    and sorted: "results = sort_desc score kept"
    by blast
  have pairs: "map (\<lambda>r. (score r, r_index r)) kept = filter ?keep ?raw"
    by (rule collect_results_pairs[OF kept])
  have "length kept = length (filter ?keep ?raw)"
    using arg_cong[OF pairs, of length] by simp
  also have "\<dots> \<le> length ?raw" by (rule length_filter_le)
  also have "\<dots> \<le> length (scores ! 0)" by simp
  also have "\<dots> = nat k" using shape ne by simp
  finally have len: "length results \<le> nat k" by (simp add: sorted length_sort_desc)
  have thr: "\<forall>r \<in> set results. ?t \<le> score r"
  proof
    fix r assume "r \<in> set results"
    then have "r \<in> set kept" by (simp add: sorted set_sort_desc)
    then have "(score r, r_index r) \<in> set (map (\<lambda>r. (score r, r_index r)) kept)" by force
    then show "?t \<le> score r" unfolding pairs by simp
  qed
  have ties: "map r_index (filter (\<lambda>r. score r = v) results) =
              map snd (filter (\<lambda>(s, i). s = v \<and> i < int (length (metadata st)) \<and> ?t \<le> s) ?raw)" for v
  proof -
    have "map r_index (filter (\<lambda>r. score r = v) results) = map r_index (filter (\<lambda>r. score r = v) kept)"
      by (simp add: sorted sort_desc_stable)
    also have "\<dots> = map snd (filter (\<lambda>(s, i). s = v) (map (\<lambda>r. (score r, r_index r)) kept))"
      by (simp add: filter_map comp_def)
    also have "\<dots> = map snd (filter (\<lambda>(s, i). s = v) (filter ?keep ?raw))"
      by (simp only: pairs)
    also have "\<dots> = map snd (filter (\<lambda>(s, i). s = v \<and> i < int (length (metadata st)) \<and> ?t \<le> s) ?raw)"
      by (simp add: case_prod_unfold conj_ac)
    finally show ?thesis .
  qed
  have srt: "sorted_wrt (\<lambda>a b. score a \<ge> score b) results"
    by (simp add: sorted sorted_sort_desc)
  from thr have thr': "threshold_cast env threshold = threshold \<longrightarrow>
            (\<forall>r \<in> set results. threshold \<le> score r)"
    by auto
  from len thr thr' srt ties show ?thesis by blast
qed

text \<open>
  The theorem at a backend row that lists position 1 before position 0 at the same
  score 0.9, with \<open>k = 2\<close> and threshold 0.5.
\<close>

theorem similarity_search_ranked_witness:
  "similarity_search (example_env [9/10, 9/10] [1, 0]) two_docs ''vectors'' 2 (1/2) =
     Inr [\<lparr> score = 9/10, r_metadata = metadata two_docs ! 1, r_index = 1 \<rparr>,
          \<lparr> score = 9/10, r_metadata = metadata two_docs ! 0, r_index = 0 \<rparr>]
   \<and> length [\<lparr> score = 9/10 :: real, r_metadata = metadata two_docs ! 1, r_index = 1 \<rparr>,
              \<lparr> score = 9/10, r_metadata = metadata two_docs ! 0, r_index = 0 \<rparr>] \<le> nat 2
   \<and> sorted_wrt (\<lambda>a b. score a \<ge> score b)
        [\<lparr> score = 9/10 :: real, r_metadata = metadata two_docs ! 1, r_index = 1 \<rparr>,
         \<lparr> score = 9/10, r_metadata = metadata two_docs ! 0, r_index = 0 \<rparr>]"
proof -
  let ?env = "example_env [9/10, 9/10] [1, 0]"
  let ?rs = "[\<lparr> score = 9/10 :: real, r_metadata = metadata two_docs ! 1, r_index = 1 \<rparr>,
              \<lparr> score = 9/10, r_metadata = metadata two_docs ! 0, r_index = 0 \<rparr>]"
  have ne: "strip ''vectors'' \<noteq> []" by code_simp
  have enc: "encode ?env [''vectors''] = Inr [7]" by (simp add: example_env_def)
  have bs: "backend_search ?env (index two_docs) [7] 2 = Inr ([[9/10, 9/10]], [[1, 0]])"
    by (simp add: example_env_def two_docs_def)
  have shape: "\<forall>row \<in> set [[9/10, 9/10 :: real]]. length row = nat 2" by simp
  have res: "similarity_search ?env two_docs ''vectors'' 2 (1/2) = Inr ?rs"
    using ne by (simp add: similarity_search_def example_env_def py_index_def two_docs_def sort_desc_def)
  from similarity_search_ranked[OF res enc bs shape] res show ?thesis by blast
qed

text \<open>
  C1 as stated fails twice. On ties: for that row the two results have the same score
  and position 1 comes before position 0, the entry inserted first. On the threshold:
  where NumPy rounds the threshold 0.9 to single precision, a hit whose score is the
  single-precision float below 0.9 is returned, and that score is less than 0.9.
\<close>

theorem similarity_search_counterexample:
  "map r_index (projr (similarity_search (example_env [9/10, 9/10] [1, 0]) two_docs ''vectors'' 2 (1/2)))
     = [1, 0]
   \<and> map score (projr (similarity_search (example_env [9/10, 9/10] [1, 0]) two_docs ''vectors'' 2 (1/2)))
     = [9/10, 9/10]
   \<and> similarity_search ((example_env [7549747/8388608] [0])\<lparr>threshold_cast := round_to_single\<rparr>)
        two_docs ''vectors'' 1 (9/10)
     = Inr [\<lparr> score = 7549747/8388608, r_metadata = metadata two_docs ! 0, r_index = 0 \<rparr>]
   \<and> (7549747/8388608 :: real) < 9/10"
proof -
  have ne: "strip ''vectors'' \<noteq> []" by code_simp
  have r: "round_to_single (9/10) = 7549747/8388608"
    by (simp add: round_to_single_def Let_def)
  show ?thesis
    using ne
    by (simp add: similarity_search_def example_env_def py_index_def two_docs_def sort_desc_def r)
qed

subsection \<open>Blank queries and \<open>k\<close>\<close>




subsection \<open>Positions\<close>

text \<open>
  C10, at a store of two documents searched with \<open>k = 3\<close>: the backend pads its row with
  position \<open>-1\<close> at the lowest finite single-precision score. The filter tests only
  \<open>idx < len(metadata)\<close>, so with a threshold at or below that score the padding is
  returned, with position \<open>-1\<close> and the metadata of the last entry; on an empty
  store the read of \<open>metadata[-1]\<close> raises.
\<close>

theorem padding_position_surfaced:
  "similarity_search (example_env [9/10, 4/5, - 340282346638528859811704183484516925440] [0, 1, - 1])
      two_docs ''vectors'' 3 (- 350000000000000000000000000000000000000)
     = Inr [\<lparr> score = 9/10, r_metadata = metadata two_docs ! 0, r_index = 0 \<rparr>,
            \<lparr> score = 4/5, r_metadata = metadata two_docs ! 1, r_index = 1 \<rparr>,
            \<lparr> score = - 340282346638528859811704183484516925440,
               r_metadata = metadata two_docs ! 1, r_index = - 1 \<rparr>]
   \<and> similarity_search (example_env [- 340282346638528859811704183484516925440] [- 1])
        (two_docs\<lparr>index := \<lparr>index_dim = 384, vectors = []\<rparr>, metadata := []\<rparr>) ''vectors'' 1
        (- 350000000000000000000000000000000000000)
     = Inl IndexError"
proof -
  have ne: "strip ''vectors'' \<noteq> []" by code_simp
  show ?thesis
    using ne by (simp add: similarity_search_def example_env_def py_index_def two_docs_def sort_desc_def)
qed

section \<open>The vector store: context and references\<close>

text \<open>
  C8, at a result whose metadata has a source and a page but no title: the reference
  takes the source as its module, and the context line prints the empty title.
\<close>

theorem context_line_without_title:
  "context_line fmt 0 \<lparr> score = s, r_metadata = [(''source'', PyStr ''intro.pdf''), (''page'', PyInt 3)], r_index = 0 \<rparr>
     = ''[Reference 1]  - Page 3 (Relevance: '' @ fmt s @ '')''
   \<and> make_reference \<lparr> score = s, r_metadata = [(''source'', PyStr ''intro.pdf''), (''page'', PyInt 3)], r_index = 0 \<rparr>
     = \<lparr> ref_module = PyStr ''intro.pdf'', ref_page = ''3'', ref_score = s, ref_source = PyStr ''intro.pdf'' \<rparr>"
proof -
  have 1: "str_nat (Suc 0) = ''1''" by code_simp
  have 3: "str_int 3 = ''3''" by code_simp
  show ?thesis
    by (simp add: context_line_def make_reference_def get_def str_of_def truthy_def py_or_def
          Let_def 1 3)
qed

text \<open>An empty search gives the empty context and no references; an exception passes through.\<close>

lemma search_with_context_empty:
  "similarity_search env st query k threshold = Inr [] \<Longrightarrow>
     search_with_context format_3f env st query k threshold = Inr ([], [])"
  by (simp add: search_with_context_def)

lemma search_with_context_references:
  "similarity_search env st query k threshold = Inr results \<Longrightarrow>
     \<exists>context. search_with_context format_3f env st query k threshold
                 = Inr (context, map make_reference results)"
  by (simp add: search_with_context_def)

section \<open>The vector store: construction and persistence\<close>

subsection \<open>Loading\<close>

lemma read_files_index:
  "index (read_files st) =
     (case (index_file st, metadata_file st) of
        (Readable idx, Readable md) \<Rightarrow> idx
      | _ \<Rightarrow> \<lparr>index_dim = dimension st, vectors = []\<rparr>)"
  and read_files_metadata:
  "metadata (read_files st) =
     (case (index_file st, metadata_file st) of
        (Readable idx, Readable md) \<Rightarrow> md
      | _ \<Rightarrow> [])"
  and read_files_logged:
  "logged (read_files st) =
     logged st @ [case (index_file st, metadata_file st) of
                    (Readable idx, Readable md) \<Rightarrow> Loaded_Index (length md)
                  | _ \<Rightarrow> Load_Failed]"
  by (simp_all add: read_files_def log_to_def split: disk_file.splits)

text \<open>
  C3 (as amended). No count and no missing counterpart makes the construction fail.
  When the directory is made, the model loads, the empty index is created and the two
  paths can be examined, construction returns a store: when both files exist and can be
  read, they are loaded as they are and their counts are not compared; when a file is
  missing, or one cannot be read, the store starts empty, and a failed read is logged.
  An exception of the construction is the exception of one of those steps.
\<close>

theorem init_ignores_persisted_mismatch:
  "(make_directory env = None \<longrightarrow> load_model env = None \<longrightarrow> new_index env = None \<longrightarrow>
      (\<forall>e. disk_index \<noteq> Inaccessible e) \<longrightarrow> (\<forall>e. disk_metadata \<noteq> Inaccessible e) \<longrightarrow>
      (\<exists>st. init env name disk_index disk_metadata = Inr st
         \<and> index st = (case (disk_index, disk_metadata) of
                          (Readable idx, Readable md) \<Rightarrow> idx
                        | _ \<Rightarrow> \<lparr>index_dim = model_dimension env, vectors = []\<rparr>)
         \<and> metadata st = (case (disk_index, disk_metadata) of
                             (Readable idx, Readable md) \<Rightarrow> md | _ \<Rightarrow> [])
         \<and> (Load_Failed \<in> set (logged st)) =
              (disk_index \<noteq> Missing \<and> disk_metadata \<noteq> Missing
               \<and> (disk_index = Unreadable \<or> disk_metadata = Unreadable))))
   \<and> (\<forall>e. init env name disk_index disk_metadata = Inl e \<longrightarrow>
          make_directory env = Some e \<or> load_model env = Some e \<or> new_index env = Some e
          \<or> disk_index = Inaccessible e \<or> disk_metadata = Inaccessible e)"
proof -
  have ok: "\<exists>st. init env name disk_index disk_metadata = Inr st
         \<and> index st = (case (disk_index, disk_metadata) of
                          (Readable idx, Readable md) \<Rightarrow> idx
                        | _ \<Rightarrow> \<lparr>index_dim = model_dimension env, vectors = []\<rparr>)
         \<and> metadata st = (case (disk_index, disk_metadata) of
                             (Readable idx, Readable md) \<Rightarrow> md | _ \<Rightarrow> [])
         \<and> (Load_Failed \<in> set (logged st)) =
              (disk_index \<noteq> Missing \<and> disk_metadata \<noteq> Missing
               \<and> (disk_index = Unreadable \<or> disk_metadata = Unreadable))"
    if "make_directory env = None" "load_model env = None" "new_index env = None"
       "\<forall>e. disk_index \<noteq> Inaccessible e" "\<forall>e. disk_metadata \<noteq> Inaccessible e"
    using that
    by (cases disk_index; cases disk_metadata)
       (simp_all add: init_def load_existing_index_def file_exists_def
          read_files_index read_files_metadata read_files_logged)
  have err: "make_directory env = Some e \<or> load_model env = Some e \<or> new_index env = Some e
          \<or> disk_index = Inaccessible e \<or> disk_metadata = Inaccessible e"
    if "init env name disk_index disk_metadata = Inl e" for e
    using that
    by (cases disk_index; cases disk_metadata)
       (auto simp: init_def load_existing_index_def file_exists_def split: option.splits)
  from ok err show ?thesis by blast
qed

text \<open>The theorem at an index file of two vectors beside a metadata file that cannot be read.\<close>

theorem init_ignores_persisted_mismatch_witness:
  "make_directory (example_env [] []) = None \<and> load_model (example_env [] []) = None
   \<and> new_index (example_env [] []) = None
   \<and> (\<exists>st. init (example_env [] []) ''all-MiniLM-L6-v2''
              (Readable \<lparr>index_dim = 384, vectors = [21, 24]\<rparr>) Unreadable = Inr st
         \<and> index st = \<lparr>index_dim = 384, vectors = []\<rparr> \<and> metadata st = []
         \<and> Load_Failed \<in> set (logged st))"
proof -
  let ?env = "example_env [] [] :: (nat, real) env"
  have h: "make_directory ?env = None" "load_model ?env = None" "new_index ?env = None"
    "model_dimension ?env = 384"
    by (simp_all add: example_env_def)
  from init_ignores_persisted_mismatch[of ?env "Readable \<lparr>index_dim = 384, vectors = [21, 24]\<rparr>"
         Unreadable "''all-MiniLM-L6-v2''"] h
  show ?thesis by simp
qed

text \<open>
  C3 as stated fails: a persisted index of two vectors beside metadata of one entry is
  loaded without an error, and an index file without its metadata file, or the reverse,
  gives an empty store without an error.
\<close>

theorem init_load_counterexample:
  "init (example_env [] []) ''all-MiniLM-L6-v2''
        (Readable \<lparr>index_dim = 384, vectors = [21, 24]\<rparr>)
        (Readable [[(''source'', PyStr ''intro.pdf''), (''page'', PyInt 3)]])
     = Inr \<lparr> model_name = ''all-MiniLM-L6-v2'', dimension = 384,
             index = \<lparr>index_dim = 384, vectors = [21, 24]\<rparr>,
             metadata = [[(''source'', PyStr ''intro.pdf''), (''page'', PyInt 3)]],
             index_file = Readable \<lparr>index_dim = 384, vectors = [21, 24]\<rparr>,
             metadata_file = Readable [[(''source'', PyStr ''intro.pdf''), (''page'', PyInt 3)]],
             logged = [Model_Loaded, Loaded_Index 1] \<rparr>
   \<and> init (example_env [] []) ''all-MiniLM-L6-v2''
        (Readable \<lparr>index_dim = 384, vectors = [21, 24]\<rparr>) Missing
     = Inr \<lparr> model_name = ''all-MiniLM-L6-v2'', dimension = 384,
             index = \<lparr>index_dim = 384, vectors = []\<rparr>, metadata = [],
             index_file = Readable \<lparr>index_dim = 384, vectors = [21, 24]\<rparr>,
             metadata_file = Missing,
             logged = [Model_Loaded] \<rparr>
   \<and> init (example_env [] []) ''all-MiniLM-L6-v2''
        Missing (Readable [[(''source'', PyStr ''intro.pdf''), (''page'', PyInt 3)]])
     = Inr \<lparr> model_name = ''all-MiniLM-L6-v2'', dimension = 384,
             index = \<lparr>index_dim = 384, vectors = []\<rparr>, metadata = [],
             index_file = Missing,
             metadata_file = Readable [[(''source'', PyStr ''intro.pdf''), (''page'', PyInt 3)]],
             logged = [Model_Loaded] \<rparr>"
  by (simp add: init_def load_existing_index_def file_exists_def read_files_def log_to_def
        example_env_def)

subsection \<open>Saving\<close>

lemma save_index_memory:
  "index (save_index env st) = index st" "metadata (save_index env st) = metadata st"
  by (simp_all add: save_index_def write_file_def log_to_def split: write_outcome.splits)

lemma save_index_failed:
  "index_write env \<noteq> Write_Ok \<or> metadata_write env \<noteq> Write_Ok \<Longrightarrow>
     Save_Failed \<in> set (logged (save_index env st))"
  by (auto simp: save_index_def write_file_def log_to_def split: write_outcome.splits)

text \<open>
  C4 (as amended). When a write of \<open>_save_index\<close> raises, the exception is caught there
  and logged: \<open>clear_index\<close> returns with the store emptied, and an \<open>add_documents\<close> that
  reaches the save (the encoder answers and the index takes the embeddings) returns
  normally with the vectors and the metadata appended in memory.
\<close>

theorem save_failure_swallowed:
  assumes "index_write env \<noteq> Write_Ok \<or> metadata_write env \<noteq> Write_Ok"
  shows "Save_Failed \<in> set (logged (clear_index env st))
       \<and> vectors (index (clear_index env st)) = [] \<and> metadata (clear_index env st) = []
       \<and> (\<forall>texts new_metadata embeddings.
            extract_texts documents = (texts, new_metadata) \<longrightarrow> texts \<noteq> [] \<longrightarrow>
            encode env texts = Inr embeddings \<longrightarrow>
            model_dimension env = index_dim (index st) \<longrightarrow>
            (\<exists>st'. add_documents env st documents = Inr st'
                 \<and> vectors (index st') = vectors (index st) @ embeddings
                 \<and> metadata st' = metadata st @ new_metadata
                 \<and> Save_Failed \<in> set (logged st')))"
proof -
  have clear: "Save_Failed \<in> set (logged (clear_index env st))
       \<and> vectors (index (clear_index env st)) = [] \<and> metadata (clear_index env st) = []"
    using save_index_failed[OF assms,
            of "st\<lparr>index := \<lparr>index_dim = dimension st, vectors = []\<rparr>, metadata := []\<rparr>"]
    by (simp add: clear_index_def log_to_def save_index_memory)
  have add: "\<exists>st'. add_documents env st documents = Inr st'
                 \<and> vectors (index st') = vectors (index st) @ embeddings
                 \<and> metadata st' = metadata st @ new_metadata
                 \<and> Save_Failed \<in> set (logged st')"
    if "extract_texts documents = (texts, new_metadata)" "texts \<noteq> []"
       "encode env texts = Inr embeddings" "model_dimension env = index_dim (index st)"
    for texts new_metadata embeddings
  proof -
    from that(1,2) have ne: "documents \<noteq> []" by auto
    let ?st3 = "(log_to (Encoding (length texts)) st)
                  \<lparr>index := (index st)\<lparr>vectors := vectors (index st) @ embeddings\<rparr>,
                   metadata := metadata st @ new_metadata\<rparr>"
    have "add_documents env st documents = Inr (log_to (Added (length texts)) (save_index env ?st3))"
      using that ne by (simp add: add_documents_def index_add_def Let_def log_to_def)
    moreover have "Save_Failed \<in> set (logged (save_index env ?st3))"
      by (rule save_index_failed[OF assms])
    ultimately show ?thesis
      by (simp add: log_to_def save_index_memory)
  qed
  from clear add show ?thesis by blast
qed

text \<open>The theorem at an index write that raises, for a clear and for an add of one document.\<close>

theorem save_failure_swallowed_witness:
  "index_write ((example_env [] [])\<lparr>index_write := Write_Raises_Partial\<rparr>) \<noteq> Write_Ok
   \<and> Save_Failed \<in> set (logged (clear_index ((example_env [] [])\<lparr>index_write := Write_Raises_Partial\<rparr>) two_docs))
   \<and> vectors (index (clear_index ((example_env [] [])\<lparr>index_write := Write_Raises_Partial\<rparr>) two_docs)) = []
   \<and> (\<exists>st'. add_documents ((example_env [] [])\<lparr>index_write := Write_Raises_Partial\<rparr>) two_docs
               [\<lparr> doc_text = Some ''Lists hold mixed types.'', doc_metadata = Some [(''page'', PyInt 9)] \<rparr>]
             = Inr st'
           \<and> vectors (index st') = [21, 24, 23]
           \<and> metadata st' = metadata two_docs @ [[(''page'', PyInt 9)]]
           \<and> Save_Failed \<in> set (logged st'))"
proof -
  let ?env = "(example_env [] [])\<lparr>index_write := Write_Raises_Partial\<rparr>"
  let ?docs = "[\<lparr> doc_text = Some ''Lists hold mixed types.'', doc_metadata = Some [(''page'', PyInt 9)] \<rparr>]"
  have h: "index_write ?env \<noteq> Write_Ok \<or> metadata_write ?env \<noteq> Write_Ok" by simp
  have ne: "strip ''Lists hold mixed types.'' \<noteq> []" by code_simp
  have ex: "extract_texts ?docs = ([''Lists hold mixed types.''], [[(''page'', PyInt 9)]])"
    using ne by simp
  have enc: "encode ?env [''Lists hold mixed types.''] = Inr [23]" by (simp add: example_env_def)
  have dm: "model_dimension ?env = index_dim (index two_docs)"
    by (simp add: example_env_def two_docs_def)
  have ix: "vectors (index two_docs) = [21, 24]" by (simp add: two_docs_def)
  from save_failure_swallowed[OF h, of two_docs ?docs] ex enc dm ix
  show ?thesis by simp
qed

text \<open>
  C4 as stated fails: with a metadata write that raises, \<open>add_documents\<close> returns
  normally; the index file holds three vectors, the metadata file was never written,
  and the log holds the failure.
\<close>

theorem save_failure_counterexample:
  "add_documents ((example_env [] [])\<lparr>metadata_write := Write_Raises_Untouched\<rparr>) two_docs
     [\<lparr> doc_text = Some ''Lists hold mixed types.'', doc_metadata = Some [(''page'', PyInt 9)] \<rparr>]
   = Inr \<lparr> model_name = ''all-MiniLM-L6-v2'', dimension = 384,
           index = \<lparr>index_dim = 384, vectors = [21, 24, 23]\<rparr>,
           metadata = [[(''source'', PyStr ''intro.pdf''), (''page'', PyInt 3)],
                       [(''source'', PyStr ''lists.pdf''), (''page'', PyInt 7),
                        (''title'', PyStr ''Lists'')],
                       [(''page'', PyInt 9)]],
           index_file = Readable \<lparr>index_dim = 384, vectors = [21, 24, 23]\<rparr>,
           metadata_file = Missing,
           logged = [Encoding 1, Save_Failed, Added 1] \<rparr>"
proof -
  have ne: "strip ''Lists hold mixed types.'' \<noteq> []" by code_simp
  show ?thesis using ne
    by (simp add: add_documents_def index_add_def save_index_def write_file_def log_to_def
          example_env_def two_docs_def Let_def)
qed

subsection \<open>The counts\<close>

lemma length_extract_texts:
  "extract_texts documents = (texts, new_metadata) \<Longrightarrow> length texts = length new_metadata"
  by (induction documents arbitrary: texts new_metadata)
     (auto simp: Let_def split: prod.splits if_splits)

lemma counts_agree_iff: "counts_agree st = (length (metadata st) = length (vectors (index st)))"
  by (simp add: counts_agree_def get_index_stats_def)

text \<open>
  C9 (as amended). The number of metadata entries equals the number of vectors after a
  construction that loads no persisted pair of different counts; \<open>add_documents\<close>
  preserves the equality when the encoder gives one embedding for each text, whether it
  returns or raises (the encoder raises, or the index, loaded with another dimension,
  refuses the embeddings); \<open>clear_index\<close> establishes it, and the statistics after a
  clear report 0 documents and 0 vectors.
\<close>

theorem counts_agree_preserved:
  "(init env name disk_index disk_metadata = Inr st0 \<longrightarrow>
      (\<forall>idx md. disk_index = Readable idx \<longrightarrow> disk_metadata = Readable md \<longrightarrow>
                length (vectors idx) = length md) \<longrightarrow>
      counts_agree st0)
   \<and> ((\<forall>texts embeddings. encode env texts = Inr embeddings \<longrightarrow> length embeddings = length texts) \<longrightarrow>
      counts_agree st \<longrightarrow>
      (case add_documents env st documents of
         Inr st' \<Rightarrow> counts_agree st'
       | Inl (e, st') \<Rightarrow> counts_agree st'))
   \<and> counts_agree (clear_index env st)
   \<and> total_documents (get_index_stats (clear_index env st)) = 0
   \<and> index_size (get_index_stats (clear_index env st)) = 0"
proof -
  have a: "counts_agree st0"
    if "init env name disk_index disk_metadata = Inr st0"
       "\<forall>idx md. disk_index = Readable idx \<longrightarrow> disk_metadata = Readable md \<longrightarrow>
                 length (vectors idx) = length md"
    using that
    by (cases disk_index; cases disk_metadata)
       (auto simp: init_def load_existing_index_def file_exists_def read_files_def log_to_def
             counts_agree_iff split: option.splits)
  have b: "case add_documents env st documents of
         Inr st' \<Rightarrow> counts_agree st'
       | Inl (e, st') \<Rightarrow> counts_agree st'"
    if enc: "\<forall>texts embeddings. encode env texts = Inr embeddings \<longrightarrow> length embeddings = length texts"
      and inv: "counts_agree st"
  proof -
    obtain texts new_metadata where ex: "extract_texts documents = (texts, new_metadata)"
      by (cases "extract_texts documents")
    note len = length_extract_texts[OF ex]
    show ?thesis
    proof (cases "encode env texts")
      case (Inl e)
      with ex inv show ?thesis
        by (simp add: add_documents_def Let_def log_to_def counts_agree_iff)
    next
      case (Inr embeddings)
      with enc have "length embeddings = length texts" by blast
      with Inr ex inv len show ?thesis
        by (simp add: add_documents_def index_add_def Let_def log_to_def counts_agree_iff
              save_index_memory)
    qed
  qed
  have c: "counts_agree (clear_index env st)
   \<and> total_documents (get_index_stats (clear_index env st)) = 0
   \<and> index_size (get_index_stats (clear_index env st)) = 0"
    by (simp add: counts_agree_iff clear_index_def log_to_def save_index_memory get_index_stats_def)
  from a b c show ?thesis by blast
qed

text \<open>
  The theorem at a persisted pair of two vectors and two entries, at an add of one
  document with text and one blank document, at an add to an index that was saved with
  another dimension, which raises, and at a clear.
\<close>

theorem counts_agree_preserved_witness:
  "init (example_env [] []) ''all-MiniLM-L6-v2'' (Readable (index two_docs)) (Readable (metadata two_docs))
     = Inr (two_docs\<lparr> index_file := Readable (index two_docs),
                      metadata_file := Readable (metadata two_docs),
                      logged := [Model_Loaded, Loaded_Index 2] \<rparr>)
   \<and> counts_agree (two_docs\<lparr> index_file := Readable (index two_docs),
                      metadata_file := Readable (metadata two_docs),
                      logged := [Model_Loaded, Loaded_Index 2] \<rparr>)
   \<and> counts_agree two_docs
   \<and> (case add_documents (example_env [] []) two_docs
              [\<lparr> doc_text = Some ''Lists hold mixed types.'', doc_metadata = None \<rparr>,
               \<lparr> doc_text = Some ''   '', doc_metadata = None \<rparr>] of
         Inr st' \<Rightarrow> counts_agree st'
       | Inl (e, st') \<Rightarrow> counts_agree st')
   \<and> add_documents (example_env [] []) (two_docs\<lparr>index := \<lparr>index_dim = 768, vectors = [21, 24]\<rparr>\<rparr>)
        [\<lparr> doc_text = Some ''Lists hold mixed types.'', doc_metadata = None \<rparr>]
     = Inl (External ''AssertionError'',
            two_docs\<lparr>index := \<lparr>index_dim = 768, vectors = [21, 24]\<rparr>, logged := [Encoding 1]\<rparr>)
   \<and> counts_agree (two_docs\<lparr>index := \<lparr>index_dim = 768, vectors = [21, 24]\<rparr>, logged := [Encoding 1]\<rparr>)
   \<and> counts_agree (clear_index (example_env [] []) two_docs)"
proof -
  let ?env = "example_env [] [] :: (nat, real) env"
  let ?docs = "[\<lparr> doc_text = Some ''Lists hold mixed types.'', doc_metadata = None \<rparr>,
               \<lparr> doc_text = Some ''   '', doc_metadata = None \<rparr>]"
  let ?doc1 = "[\<lparr> doc_text = Some ''Lists hold mixed types.'', doc_metadata = None \<rparr>]"
  let ?st0 = "two_docs\<lparr> index_file := Readable (index two_docs),
                      metadata_file := Readable (metadata two_docs),
                      logged := [Model_Loaded, Loaded_Index 2] \<rparr>"
  let ?wide = "two_docs\<lparr>index := \<lparr>index_dim = 768, vectors = [21, 24]\<rparr>\<rparr>"
  have ne: "strip ''Lists hold mixed types.'' \<noteq> []" by code_simp
  have i: "init ?env ''all-MiniLM-L6-v2'' (Readable (index two_docs)) (Readable (metadata two_docs))
             = Inr ?st0"
    by (simp add: init_def load_existing_index_def file_exists_def read_files_def log_to_def
          example_env_def two_docs_def)
  have d: "\<forall>idx md. Readable (index two_docs) = Readable idx \<longrightarrow>
             Readable (metadata two_docs) = Readable md \<longrightarrow> length (vectors idx) = length md"
    by (simp add: two_docs_def)
  have e: "\<forall>texts embeddings. encode ?env texts = Inr embeddings \<longrightarrow> length embeddings = length texts"
    by (auto simp: example_env_def)
  have c: "counts_agree two_docs"
    by (simp add: counts_agree_def get_index_stats_def two_docs_def)
  have cw: "counts_agree ?wide"
    by (simp add: counts_agree_def get_index_stats_def two_docs_def)
  have w: "add_documents ?env ?wide ?doc1
             = Inl (External ''AssertionError'', ?wide\<lparr>logged := [Encoding 1]\<rparr>)"
    using ne
    by (simp add: add_documents_def index_add_def example_env_def two_docs_def log_to_def Let_def)
  note t = counts_agree_preserved[of ?env "''all-MiniLM-L6-v2''" "Readable (index two_docs)"
             "Readable (metadata two_docs)" ?st0 two_docs ?docs]
  note t' = counts_agree_preserved[of ?env "''all-MiniLM-L6-v2''" "Readable (index two_docs)"
             "Readable (metadata two_docs)" ?st0 ?wide ?doc1]
  from t' e cw w have cw': "counts_agree (?wide\<lparr>logged := [Encoding 1]\<rparr>)" by simp
  from t i d e c w cw' show ?thesis by simp
qed

text \<open>
  C9 as stated fails after construction. A first add is saved; in a second add the
  metadata write raises, which \<open>_save_index\<close> swallows after the index file is written;
  the store constructed next from these files reports 1 document and 2 vectors.
\<close>

theorem counts_disagree_counterexample:
  "(case init (example_env [] []) ''all-MiniLM-L6-v2'' Missing Missing of
      Inl e \<Rightarrow> False
    | Inr s0 \<Rightarrow>
       (case add_documents (example_env [] []) s0
               [\<lparr> doc_text = Some ''Vectors store values.'', doc_metadata = Some [(''page'', PyInt 1)] \<rparr>] of
          Inl x \<Rightarrow> False
        | Inr s1 \<Rightarrow>
           (case add_documents ((example_env [] [])\<lparr>metadata_write := Write_Raises_Untouched\<rparr>) s1
                   [\<lparr> doc_text = Some ''Lists hold mixed types.'', doc_metadata = Some [(''page'', PyInt 2)] \<rparr>] of
              Inl x \<Rightarrow> False
            | Inr s2 \<Rightarrow>
               (case init (example_env [] []) ''all-MiniLM-L6-v2'' (index_file s2) (metadata_file s2) of
                  Inl e \<Rightarrow> False
                | Inr s3 \<Rightarrow>
                    total_documents (get_index_stats s3) = 1
                    \<and> index_size (get_index_stats s3) = 2))))"
proof -
  have ne1: "strip ''Vectors store values.'' \<noteq> []" by code_simp
  have ne2: "strip ''Lists hold mixed types.'' \<noteq> []" by code_simp
  show ?thesis using ne1 ne2
    by (simp add: init_def load_existing_index_def file_exists_def read_files_def
          add_documents_def index_add_def save_index_def write_file_def
          log_to_def example_env_def get_index_stats_def Let_def)
qed

end
